theory Spec2Isabelle
  imports Complex_Main "HOL-Library.Sublist"
begin

section \<open>Python values used by the calculator\<close>

text \<open>
  The programs \<^verbatim>\<open>main.py\<close> (original) and \<^verbatim>\<open>main_v2.py\<close> (optimized) work on
  Python floats, ints, strings and dicts. Prices, intervals and margins are Python
  floats; they are modelled as exact real numbers (\<^typ>\<open>real\<close>), so the rounding error of
  IEEE doubles, infinities and NaN are outside this model. Python ints are \<^typ>\<open>int\<close>,
  strings are \<^typ>\<open>string\<close> (ASCII), a dict is a map.
\<close>

datatype py_exc =
    KeyError
  | ValueError
  | TypeError
  | AttributeError
  | ZeroDivisionError
  | IOError
  | HTTPError

text \<open>\<^verbatim>\<open>str.upper()\<close> on ASCII text: the letters a-z move to A-Z.\<close>

definition upper_char :: "char \<Rightarrow> char" where
  "upper_char c =
     (case map_of (zip ''abcdefghijklmnopqrstuvwxyz'' ''ABCDEFGHIJKLMNOPQRSTUVWXYZ'') c of
        Some u \<Rightarrow> u
      | None \<Rightarrow> c)"

definition upper :: "string \<Rightarrow> string" where
  "upper s = map upper_char s"

text \<open>\<^verbatim>\<open>int(x)\<close> on a float truncates towards zero.\<close>

definition int_of_float :: "real \<Rightarrow> int" where
  "int_of_float x = (if 0 \<le> x then \<lfloor>x\<rfloor> else \<lceil>x\<rceil>)"

text \<open>\<^verbatim>\<open>math.fmod(x, y)\<close>: the remainder with the sign of \<open>x\<close>.\<close>

definition fmod :: "real \<Rightarrow> real \<Rightarrow> real" where
  "fmod x y = x - of_int (int_of_float (x / y)) * y"

text \<open>\<^verbatim>\<open>str(n)\<close> and the format \<^verbatim>\<open>{n:02d}\<close> on integers.\<close>

definition digit_char :: "nat \<Rightarrow> char" where
  "digit_char n = ''0123456789'' ! (n mod 10)"

fun str_nat :: "nat \<Rightarrow> string" where
  "str_nat n = (if n < 10 then [digit_char n] else str_nat (n div 10) @ [digit_char n])"

declare str_nat.simps [simp del]

definition str_int :: "int \<Rightarrow> string" where
  "str_int i = (if i < 0 then CHR ''-'' # str_nat (nat (- i)) else str_nat (nat i))"

definition pad2 :: "nat \<Rightarrow> string" where
  "pad2 n = (if n < 10 then CHR ''0'' # str_nat n else str_nat n)"

section \<open>Strike intervals and the ATM strike\<close>

text \<open>\<^verbatim>\<open>Utils.get_default_intervals\<close> (main_v2.py, lines 99-109).\<close>

definition get_default_intervals :: "string \<rightharpoonup> real" where
  "get_default_intervals =
     map_of [(''NIFTY'', 50), (''BANKNIFTY'', 100), (''FINNIFTY'', 50),
             (''MIDCPNIFTY'', 25), (''NIFTY NEXT 50'', 100), (''SENSEX'', 100)]"

text \<open>
  \<^verbatim>\<open>Utils.calculate_atm_strike\<close> (main_v2.py, lines 139-162). \<^verbatim>\<open>not interval\<close>
  holds for a missing symbol and for the interval 0; both take the price-based interval.
\<close>

definition Utils_calculate_atm_strike :: "real \<Rightarrow> string \<Rightarrow> (string \<rightharpoonup> real) \<Rightarrow> int" where
  "Utils_calculate_atm_strike ltp symbol intervals =
     (let by_price =
            (if ltp < 500 then 5
             else if ltp < 1000 then 10
             else if ltp < 2000 then 20
             else if ltp < 5000 then 50
             else (100::real));
          interval =
            (case intervals (upper symbol) of
               None \<Rightarrow> by_price
             | Some i \<Rightarrow> if i = 0 then by_price else i)
      in int_of_float (of_int \<lceil>ltp / interval\<rceil> * interval))"

text \<open>
  \<^verbatim>\<open>calculate_atm_strike\<close> of the original program (main.py, lines 92-121). The
  function loads the interval table from the reference file on every call; the loaded
  table is the argument \<open>strike_intervals\<close> here. The generic branch divides by the
  interval, which raises for the interval 0.
\<close>

definition calculate_atm_strike :: "(string \<rightharpoonup> real) \<Rightarrow> real \<Rightarrow> string \<Rightarrow> py_exc + int" where
  "calculate_atm_strike strike_intervals ltp symbol =
     (let interval = (case strike_intervals symbol of None \<Rightarrow> 50 | Some i \<Rightarrow> i)
      in if symbol = ''NIFTY'' then
           (let val2 = fmod ltp 50;
                val3 = (if val2 \<ge> 25 then 50 else 0)
            in Inr (int_of_float (ltp - val2 + val3)))
         else if symbol = ''BANKNIFTY'' then
           (let val2 = fmod ltp 100;
                val3 = (if val2 \<ge> 50 then 100 else 0)
            in Inr (int_of_float (ltp - val2 + val3)))
         else if interval = 0 then Inl ZeroDivisionError
         else
           (let val1 = of_int \<lfloor>ltp / interval\<rfloor> * interval;
                val2 = of_int \<lceil>ltp / interval\<rceil> * interval
            in Inr (int_of_float (if \<bar>ltp - val1\<bar> < \<bar>ltp - val2\<bar> then val1 else val2))))"

section \<open>Calendar dates\<close>

text \<open>
  \<^verbatim>\<open>datetime.now()\<close> is an input of the model. Only its date matters to the expiry
  code: the programs compare \<^verbatim>\<open>.date()\<close> values and format year, month and day.
  The ordinal and the weekday are those of Python's \<^verbatim>\<open>datetime\<close> (Monday is 0,
  Thursday is 3).
\<close>

record date =
  year :: nat
  month :: nat
  day :: nat

definition is_leap :: "nat \<Rightarrow> bool" where
  "is_leap y = (y mod 4 = 0 \<and> (y mod 100 \<noteq> 0 \<or> y mod 400 = 0))"

definition days_in_month :: "nat \<Rightarrow> nat \<Rightarrow> nat" where
  "days_in_month y m =
     (if m = 2 \<and> is_leap y then 29
      else [0, 31, 28, 31, 30, 31, 30, 31, 31, 30, 31, 30, 31] ! m)"

definition days_before_year :: "nat \<Rightarrow> int" where
  "days_before_year y' =
     (let y = int y' - 1 in y * 365 + y div 4 - y div 100 + y div 400)"

definition days_before_month :: "nat \<Rightarrow> nat \<Rightarrow> int" where
  "days_before_month y m =
     [0, 0, 31, 59, 90, 120, 151, 181, 212, 243, 273, 304, 334] ! m
       + (if m > 2 \<and> is_leap y then 1 else 0)"

definition toordinal :: "date \<Rightarrow> int" where
  "toordinal d = days_before_year (year d) + days_before_month (year d) (month d) + int (day d)"

definition weekday :: "date \<Rightarrow> nat" where
  "weekday d = nat ((toordinal d + 6) mod 7)"


text \<open>
  Adding or subtracting \<^verbatim>\<open>timedelta(days=k)\<close> moves the date by \<open>k\<close> calendar days;
  the model steps one day at a time.
\<close>

definition next_day :: "date \<Rightarrow> date" where
  "next_day d =
     (if day d < days_in_month (year d) (month d) then d\<lparr>day := day d + 1\<rparr>
      else if month d < 12 then d\<lparr>month := month d + 1, day := 1\<rparr>
      else d\<lparr>year := year d + 1, month := 1, day := 1\<rparr>)"

definition prev_day :: "date \<Rightarrow> date" where
  "prev_day d =
     (if 1 < day d then d\<lparr>day := day d - 1\<rparr>
      else if 1 < month d then
        d\<lparr>month := month d - 1, day := days_in_month (year d) (month d - 1)\<rparr>
      else d\<lparr>year := year d - 1, month := 12, day := 31\<rparr>)"

fun add_days :: "nat \<Rightarrow> date \<Rightarrow> date" where
  "add_days 0 d = d"
| "add_days (Suc k) d = add_days k (next_day d)"

fun sub_days :: "nat \<Rightarrow> date \<Rightarrow> date" where
  "sub_days 0 d = d"
| "sub_days (Suc k) d = sub_days k (prev_day d)"

text \<open>
  \<^verbatim>\<open>now + relativedelta(weekday=TH(1))\<close>: the library jumps forward by
  \<^verbatim>\<open>(7 - ret.weekday() + 3) % 7\<close> days.
\<close>

definition next_thursday :: "date \<Rightarrow> date" where
  "next_thursday now = add_days ((7 - weekday now + 3) mod 7) now"

text \<open>
  \<^verbatim>\<open>now + relativedelta(day=31, weekday=TH(-1))\<close>: the day is first replaced by
  the smaller of 31 and the length of the month, then the library jumps back by
  \<^verbatim>\<open>(ret.weekday() - 3) % 7\<close> days (Python's \<^verbatim>\<open>%\<close> is never negative).
\<close>

definition last_thursday :: "date \<Rightarrow> date" where
  "last_thursday now =
     (let ret = now\<lparr>day := min 31 (days_in_month (year now) (month now))\<rparr>
      in sub_days (nat ((int (weekday ret) - 3) mod 7)) ret)"

section \<open>Expiry codes\<close>

text \<open>\<^verbatim>\<open>strftime("%y")\<close> and \<^verbatim>\<open>strftime("%b")\<close> (C locale).\<close>

definition strftime_y :: "date \<Rightarrow> string" where
  "strftime_y d = pad2 (year d mod 100)"

definition strftime_b :: "date \<Rightarrow> string" where
  "strftime_b d =
     [''???'', ''Jan'', ''Feb'', ''Mar'', ''Apr'', ''May'', ''Jun'',
      ''Jul'', ''Aug'', ''Sep'', ''Oct'', ''Nov'', ''Dec''] ! month d"

text \<open>The dict \<^verbatim>\<open>fyers_month_code\<close>; \<^verbatim>\<open>fyers_month_code[m]\<close> raises on a missing key.\<close>

definition fyers_month_code :: "nat \<rightharpoonup> string" where
  "fyers_month_code =
     map_of [(1, ''1''), (2, ''2''), (3, ''3''), (4, ''4''), (5, ''5''), (6, ''6''),
             (7, ''7''), (8, ''8''), (9, ''9''), (10, ''O''), (11, ''N''), (12, ''D'')]"

text \<open>The monthly format \<^verbatim>\<open>now.strftime(f"{yy}%b").upper()\<close>.\<close>

definition monthly_code :: "date \<Rightarrow> string" where
  "monthly_code now = upper (strftime_y now @ strftime_b now)"

text \<open>\<^verbatim>\<open>Utils.get_expiry_code\<close> (main_v2.py, lines 111-137).\<close>

definition Utils_get_expiry_code :: "date \<Rightarrow> string \<Rightarrow> py_exc + string" where
  "Utils_get_expiry_code now symbol =
     (let yy = strftime_y now in
      if upper symbol \<in> set [''NIFTY'', ''BANKNIFTY'', ''FINNIFTY'', ''MIDCPNIFTY''] then
        (let next_th = next_thursday now;
             last_th = last_thursday now
         in if next_th = last_th then Inr (monthly_code now)
            else if upper symbol = ''NIFTY'' then
              (let m = month next_th; d = day next_th
               in case fyers_month_code m of
                    None \<Rightarrow> Inl KeyError
                  | Some c \<Rightarrow> Inr (yy @ c @ pad2 d))
            else Inr (monthly_code now))
      else Inr (monthly_code now))"


section \<open>Symbol formatting\<close>

text \<open>\<^verbatim>\<open>Utils.convert_symbol_to_fyers_format\<close> (main_v2.py, lines 164-178).\<close>

definition index_mapping :: "(string \<times> string) list" where
  "index_mapping =
     [(''NIFTY'', ''NSE:NIFTY50-INDEX''),
      (''BANKNIFTY'', ''NSE:NIFTYBANK-INDEX''),
      (''FINNIFTY'', ''NSE:FINNIFTY-INDEX''),
      (''MIDCPNIFTY'', ''NSE:MIDCPNIFTY-INDEX''),
      (''NIFTY NEXT 50'', ''NSE:NIFTYNXT50-INDEX''),
      (''SENSEX'', ''BSE:SENSEX-INDEX'')]"

definition Utils_convert_symbol_to_fyers_format :: "string \<Rightarrow> string" where
  "Utils_convert_symbol_to_fyers_format symbol =
     (case map_of index_mapping (upper symbol) of
        Some v \<Rightarrow> v
      | None \<Rightarrow> ''NSE:'' @ upper symbol @ ''-EQ'')"

text \<open>\<^verbatim>\<open>Utils.create_option_symbol\<close> (main_v2.py, lines 180-196).\<close>

definition option_mapping :: "(string \<times> string) list" where
  "option_mapping =
     [(''NIFTY'', ''NIFTY''),
      (''BANKNIFTY'', ''BANKNIFTY''),
      (''FINNIFTY'', ''FINNIFTY''),
      (''MIDCPNIFTY'', ''MIDCPNIFTY''),
      (''NIFTY NEXT 50'', ''NIFTYNXT50'')]"

definition Utils_create_option_symbol :: "date \<Rightarrow> string \<Rightarrow> int \<Rightarrow> string \<Rightarrow> py_exc + string" where
  "Utils_create_option_symbol now base_symbol strike option_type =
     (case Utils_get_expiry_code now base_symbol of
        Inl e \<Rightarrow> Inl e
      | Inr expiry_code \<Rightarrow>
          (let option_base =
                 (case map_of option_mapping (upper base_symbol) of
                    Some v \<Rightarrow> v
                  | None \<Rightarrow> upper base_symbol)
           in Inr (''NSE:'' @ option_base @ expiry_code @ str_int strike @ option_type)))"

section \<open>The quote client\<close>

text \<open>
  The vendor SDK, the HTTP layer and the clock are outside the program. They are the
  environment \<open>env\<close>: every answer may depend on the number of external calls made so
  far, which the program state counts in \<open>calls\<close>.
  \<^item> \<open>clock\<close> is \<^verbatim>\<open>datetime.now()\<close>;
  \<^item> \<open>token_response\<close> is the outcome of the login choreography of
    \<^verbatim>\<open>generate_access_token\<close> (lines 212-298), which catches every exception itself:
    the token, or \<open>None\<close> after a failure;
  \<^item> \<open>quotes\<close> is \<^verbatim>\<open>self.fyers.quotes\<close>: it raises, or returns a response;
  \<^item> \<open>float_of_str\<close> is \<^verbatim>\<open>float\<close> on a string, \<open>None\<close> where it raises ValueError.
\<close>

datatype lp_field =
    LpAbsent
  | LpNull
  | LpNum real
  | LpStr string
  | LpOther

datatype quote_entry = QuoteEntry "lp_field option"

record quote_response =
  resp_s :: "string option"
  resp_d :: "quote_entry list"

record env =
  clock :: "nat \<Rightarrow> date"
  token_response :: "nat \<Rightarrow> string option"
  quotes :: "nat \<Rightarrow> string \<Rightarrow> py_exc + quote_response"
  float_of_str :: "string \<Rightarrow> real option"

text \<open>What the program prints, and its rate-limiting sleep, as events.\<close>

datatype event =
    PrintAuthenticating
  | PrintAuthOk
  | PrintAuthFailed
  | PrintLtpError string py_exc
  | PrintProcessing string
  | PrintNoLtp
  | PrintLtp real
  | PrintAtm int real real
  | PrintError py_exc
  | PrintCsvNotFound
  | PrintCsvLoaded nat
  | PrintCsvError py_exc
  | PrintIntervalsNotFound
  | PrintIntervalsLoaded
  | PrintIntervalsError py_exc
  | Sleep

record world =
  access_token :: "string option"
  authenticated :: bool
  calls :: nat
  out :: "event list"

definition emit :: "event \<Rightarrow> world \<Rightarrow> world" where
  "emit e w = w\<lparr>out := out w @ [e]\<rparr>"

definition tick :: "world \<Rightarrow> world" where
  "tick w = w\<lparr>calls := calls w + 1\<rparr>"

text \<open>Truth value of an optional string: \<open>None\<close> and the empty string are false.\<close>

definition truthy :: "string option \<Rightarrow> bool" where
  "truthy t = (case t of None \<Rightarrow> False | Some s \<Rightarrow> s \<noteq> [])"

definition FyersAPI_generate_access_token :: "env \<Rightarrow> world \<Rightarrow> string option \<times> world" where
  "FyersAPI_generate_access_token env w =
     (let w1 = emit PrintAuthenticating w;
          r = token_response env (calls w1);
          w2 = tick w1
      in case r of
           None \<Rightarrow> (None, emit PrintAuthFailed w2)
         | Some t \<Rightarrow> (Some t, emit PrintAuthOk (w2\<lparr>access_token := Some t\<rparr>)))"

text \<open>\<^verbatim>\<open>FyersAPI.initialize_fyers_model\<close> (main_v2.py, lines 300-316).\<close>

definition FyersAPI_initialize_fyers_model :: "env \<Rightarrow> world \<Rightarrow> bool \<times> world" where
  "FyersAPI_initialize_fyers_model env w =
     (if authenticated w then (True, w)
      else
        (let w1 =
               (if \<not> truthy (access_token w) then
                  (case FyersAPI_generate_access_token env w of
                     (t, w') \<Rightarrow> w'\<lparr>access_token := t\<rparr>)
                else w)
         in if truthy (access_token w1) then (True, w1\<lparr>authenticated := True\<rparr>)
            else (False, w1)))"

text \<open>
  Lines 327-331 of \<^verbatim>\<open>get_ltp\<close>: reading the price out of a response. Indexing an
  entry without the key \<^verbatim>\<open>'v'\<close> raises KeyError, \<^verbatim>\<open>float\<close> raises ValueError on a
  string that is no number and TypeError on a value that is neither number nor string.
\<close>

definition read_lp :: "env \<Rightarrow> quote_response \<Rightarrow> py_exc + real" where
  "read_lp env response =
     (if resp_s response = Some ''ok'' \<and> resp_d response \<noteq> [] then
        (case hd (resp_d response) of
           QuoteEntry None \<Rightarrow> Inl KeyError
         | QuoteEntry (Some lp) \<Rightarrow>
             (case lp of
                LpAbsent \<Rightarrow> Inr 0
              | LpNull \<Rightarrow> Inr 0
              | LpNum x \<Rightarrow> Inr (if x \<noteq> 0 then x else 0)
              | LpStr s \<Rightarrow>
                  (if s \<noteq> [] then
                     (case float_of_str env s of
                        None \<Rightarrow> Inl ValueError
                      | Some x \<Rightarrow> Inr x)
                   else Inr 0)
              | LpOther \<Rightarrow> Inl TypeError))
      else Inr 0)"

text \<open>
  \<^verbatim>\<open>FyersAPI.get_ltp\<close> (main_v2.py, lines 318-335). The body runs inside
  \<^verbatim>\<open>try\<close>; the handler prints the error and returns 0.0.
\<close>

definition FyersAPI_get_ltp :: "env \<Rightarrow> string \<Rightarrow> world \<Rightarrow> real \<times> world" where
  "FyersAPI_get_ltp env symbol w =
     (case FyersAPI_initialize_fyers_model env w of
        (ok, w1) \<Rightarrow>
          if \<not> ok then (0, w1)
          else
            (let answer = quotes env (calls w1) symbol;
                 w2 = tick w1
             in case answer of
                  Inl e \<Rightarrow> (0, emit (PrintLtpError symbol e) w2)
                | Inr response \<Rightarrow>
                    (case read_lp env response of
                       Inl e \<Rightarrow> (0, emit (PrintLtpError symbol e) w2)
                     | Inr x \<Rightarrow> (x, w2))))"

text \<open>\<^verbatim>\<open>FyersAPI.calculate_margin\<close> (main_v2.py, lines 337-339).\<close>

definition FyersAPI_calculate_margin :: "real \<Rightarrow> int \<Rightarrow> real" where
  "FyersAPI_calculate_margin ltp lot_size = ltp * of_int lot_size"

section \<open>Processing one instrument\<close>

record result =
  r_symbol :: string
  r_ltp :: real
  r_atm_strike :: int
  r_ce_symbol :: string
  r_ce_ltp :: real
  r_ce_margin :: real
  r_pe_symbol :: string
  r_pe_ltp :: real
  r_pe_margin :: real
  r_lot_size :: int

text \<open>
  \<^verbatim>\<open>LTPMarginCalculator.process_symbol\<close> (main_v2.py, lines 376-423); the argument
  \<open>strike_intervals\<close> is \<^verbatim>\<open>self.strike_intervals\<close>. The body runs inside
  \<^verbatim>\<open>try\<close>; the handler prints the error and returns \<^verbatim>\<open>None\<close>.
\<close>

definition LTPMarginCalculator_process_symbol ::
  "env \<Rightarrow> (string \<rightharpoonup> real) \<Rightarrow> string \<Rightarrow> int \<Rightarrow> world \<Rightarrow> result option \<times> world" where
  "LTPMarginCalculator_process_symbol env strike_intervals symbol lot_size w =
     (let w0 = emit (PrintProcessing symbol) w;
          fyers_symbol = Utils_convert_symbol_to_fyers_format symbol
      in case FyersAPI_get_ltp env fyers_symbol w0 of
           (ltp, w1) \<Rightarrow>
             if ltp \<le> 0 then (None, emit PrintNoLtp w1)
             else
               (let w2 = emit (PrintLtp ltp) w1;
                    atm_strike = Utils_calculate_atm_strike ltp symbol strike_intervals
                in case Utils_create_option_symbol (clock env (calls w2)) symbol atm_strike ''CE'' of
                     Inl e \<Rightarrow> (None, emit (PrintError e) w2)
                   | Inr ce_symbol \<Rightarrow>
                       (case Utils_create_option_symbol (clock env (calls w2)) symbol atm_strike ''PE'' of
                          Inl e \<Rightarrow> (None, emit (PrintError e) w2)
                        | Inr pe_symbol \<Rightarrow>
                            (case FyersAPI_get_ltp env ce_symbol w2 of
                               (ce_ltp, w3) \<Rightarrow>
                                 (case FyersAPI_get_ltp env pe_symbol w3 of
                                    (pe_ltp, w4) \<Rightarrow>
                                      (let ce_margin =
                                             (if ce_ltp > 0
                                              then FyersAPI_calculate_margin ce_ltp lot_size else 0);
                                           pe_margin =
                                             (if pe_ltp > 0
                                              then FyersAPI_calculate_margin pe_ltp lot_size else 0)
                                       in (Some \<lparr>r_symbol = symbol, r_ltp = ltp,
                                                 r_atm_strike = atm_strike,
                                                 r_ce_symbol = ce_symbol, r_ce_ltp = ce_ltp,
                                                 r_ce_margin = ce_margin,
                                                 r_pe_symbol = pe_symbol, r_pe_ltp = pe_ltp,
                                                 r_pe_margin = pe_margin,
                                                 r_lot_size = lot_size\<rparr>,
                                           emit (PrintAtm atm_strike ce_ltp pe_ltp) w4)))))))"

text \<open>
  The loop of \<^verbatim>\<open>LTPMarginCalculator.run\<close> (main_v2.py, lines 494-503): every
  instrument is processed, a result that is not \<^verbatim>\<open>None\<close> is appended, and the
  program sleeps between two instruments.
\<close>

fun run_loop ::
  "env \<Rightarrow> (string \<rightharpoonup> real) \<Rightarrow> (string \<times> int) list \<Rightarrow> result list \<Rightarrow> world \<Rightarrow> result list \<times> world" where
  "run_loop env strike_intervals [] all_results w = (all_results, w)"
| "run_loop env strike_intervals ((symbol, lot_size) # rest) all_results w =
     (case LTPMarginCalculator_process_symbol env strike_intervals symbol lot_size w of
        (res, w1) \<Rightarrow>
          (let all_results' =
                 (case res of Some r \<Rightarrow> all_results @ [r] | None \<Rightarrow> all_results);
               w2 = (if rest \<noteq> [] then emit Sleep w1 else w1)
           in run_loop env strike_intervals rest all_results' w2))"

section \<open>Filtering by margin\<close>

text \<open>
  \<^verbatim>\<open>LTPMarginCalculator.filter_by_margin\<close> (main_v2.py, lines 425-436); the argument
  \<open>margin_filter\<close> is \<^verbatim>\<open>self.margin_filter\<close>.
\<close>

fun filter_loop_v2 :: "real \<Rightarrow> result list \<Rightarrow> result list \<Rightarrow> result list" where
  "filter_loop_v2 margin_filter [] filtered = filtered"
| "filter_loop_v2 margin_filter (res # results) filtered =
     (let ce_within_limit = (0 < r_ce_margin res \<and> r_ce_margin res \<le> margin_filter);
          pe_within_limit = (0 < r_pe_margin res \<and> r_pe_margin res \<le> margin_filter)
      in filter_loop_v2 margin_filter results
           (if ce_within_limit \<or> pe_within_limit then filtered @ [res] else filtered))"

definition LTPMarginCalculator_filter_by_margin :: "real \<Rightarrow> result list \<Rightarrow> result list" where
  "LTPMarginCalculator_filter_by_margin margin_filter results =
     filter_loop_v2 margin_filter results []"

text \<open>
  \<^verbatim>\<open>LTPMarginCalculator.filter_by_margin\<close> of the original program (main.py, lines
  416-425). It reads the same two margin entries of a result.
\<close>

fun filter_loop :: "real \<Rightarrow> result list \<Rightarrow> result list \<Rightarrow> result list" where
  "filter_loop margin_filter [] filtered = filtered"
| "filter_loop margin_filter (res # results) filtered =
     filter_loop margin_filter results
       (if (r_ce_margin res > 0 \<and> r_ce_margin res \<le> margin_filter) \<or>
           (r_pe_margin res > 0 \<and> r_pe_margin res \<le> margin_filter)
        then filtered @ [res] else filtered)"

definition filter_by_margin :: "real \<Rightarrow> result list \<Rightarrow> result list" where
  "filter_by_margin margin_filter results = filter_loop margin_filter results []"

section \<open>Reading the reference files\<close>

text \<open>
  A file is missing, or opening or reading it raises, or it has lines. The CSV library
  is outside the program: \<open>dict_reader\<close> stands for \<^verbatim>\<open>csv.DictReader\<close>, which
  turns the lines into rows. A row maps the column names of the header to cells; the
  cell of a column that a short row does not reach is \<^verbatim>\<open>None\<close>. The parameters
  \<open>to_float\<close> and \<open>to_int\<close> stand for \<^verbatim>\<open>float\<close> and \<^verbatim>\<open>int\<close> on strings,
  \<open>None\<close> where they raise ValueError.
\<close>

datatype csv_file = NoFile | Unreadable py_exc | FileLines "string list"

type_synonym row = "(string \<times> string option) list"

text \<open>\<^verbatim>\<open>str.strip()\<close> and \<^verbatim>\<open>str.startswith\<close>.\<close>

definition is_space :: "char \<Rightarrow> bool" where
  "is_space c = (of_char c \<in> set [9, 10, 11, 12, 13, 28, 29, 30, 31, 32 :: nat])"

definition strip :: "string \<Rightarrow> string" where
  "strip s = rev (dropWhile is_space (rev (dropWhile is_space s)))"

definition startswith :: "string \<Rightarrow> string \<Rightarrow> bool" where
  "startswith s p = (take (length p) s = p)"

text \<open>
  The loop of \<^verbatim>\<open>Utils.load_strike_intervals_from_file\<close> (main_v2.py, lines 86-90)
  over the rows, with every exception it can raise.
\<close>

fun load_rows ::
  "(string \<Rightarrow> real option) \<Rightarrow> row list \<Rightarrow> (string \<rightharpoonup> real) \<Rightarrow> py_exc + (string \<rightharpoonup> real)" where
  "load_rows to_float [] strike_intervals = Inr strike_intervals"
| "load_rows to_float (r # rows) strike_intervals =
     (case map_of r ''Symbol'' of
        None \<Rightarrow> Inl KeyError
      | Some None \<Rightarrow> Inl AttributeError
      | Some (Some cell) \<Rightarrow>
          (let symbol = strip cell
           in case map_of r ''Gap'' of
                None \<Rightarrow> Inl KeyError
              | Some None \<Rightarrow> Inl TypeError
              | Some (Some gap) \<Rightarrow>
                  (case to_float gap of
                     None \<Rightarrow> Inl ValueError
                   | Some step_value \<Rightarrow>
                       load_rows to_float rows
                         (if (case strike_intervals symbol of
                                None \<Rightarrow> True
                              | Some old \<Rightarrow> step_value < old)
                          then strike_intervals(symbol \<mapsto> step_value)
                          else strike_intervals))))"

text \<open>
  Lines 76-83: the first line is read on its own. When it starts with \<^verbatim>\<open>Symbol\<close>
  the file is rewound and the reader starts at it, otherwise the reader starts at the
  second line.
\<close>

definition reader_lines :: "string list \<Rightarrow> string list" where
  "reader_lines ls =
     (let first_line = strip (case ls of [] \<Rightarrow> [] | l # _ \<Rightarrow> l)
      in if \<not> startswith first_line ''Symbol'' then drop 1 ls else ls)"

text \<open>\<^verbatim>\<open>Utils.load_strike_intervals_from_file\<close> (main_v2.py, lines 63-97).\<close>

definition Utils_load_strike_intervals_from_file ::
  "(string list \<Rightarrow> row list) \<Rightarrow> (string \<Rightarrow> real option) \<Rightarrow> csv_file \<Rightarrow> (string \<rightharpoonup> real) \<times> event list" where
  "Utils_load_strike_intervals_from_file dict_reader to_float f =
     (case f of
        NoFile \<Rightarrow> (get_default_intervals, [PrintIntervalsNotFound])
      | Unreadable e \<Rightarrow> (get_default_intervals, [PrintIntervalsError e])
      | FileLines ls \<Rightarrow>
          (case load_rows to_float (dict_reader (reader_lines ls)) Map.empty of
             Inl e \<Rightarrow> (get_default_intervals, [PrintIntervalsError e])
           | Inr strike_intervals \<Rightarrow> (strike_intervals, [PrintIntervalsLoaded])))"

text \<open>
  \<^verbatim>\<open>LTPMarginCalculator.read_symbols_from_csv\<close> (main_v2.py, lines 353-374).
\<close>

fun read_rows ::
  "(string \<Rightarrow> int option) \<Rightarrow> row list \<Rightarrow> (string \<times> int) list \<Rightarrow> py_exc + (string \<times> int) list" where
  "read_rows to_int [] symbols = Inr symbols"
| "read_rows to_int (r # rows) symbols =
     (case map_of r ''Symbol'' of
        None \<Rightarrow> Inl KeyError
      | Some None \<Rightarrow> Inl AttributeError
      | Some (Some cell) \<Rightarrow>
          (let symbol = strip cell
           in case map_of r ''Lot Size'' of
                None \<Rightarrow> Inl KeyError
              | Some None \<Rightarrow> Inl AttributeError
              | Some (Some lot) \<Rightarrow>
                  (case to_int (strip lot) of
                     None \<Rightarrow> Inl ValueError
                   | Some lot_size \<Rightarrow> read_rows to_int rows (symbols @ [(symbol, lot_size)]))))"

definition LTPMarginCalculator_read_symbols_from_csv ::
  "(string list \<Rightarrow> row list) \<Rightarrow> (string \<Rightarrow> int option) \<Rightarrow> csv_file \<Rightarrow> (string \<times> int) list \<times> event list" where
  "LTPMarginCalculator_read_symbols_from_csv dict_reader to_int f =
     (case f of
        NoFile \<Rightarrow> ([], [PrintCsvNotFound])
      | Unreadable e \<Rightarrow> ([], [PrintCsvError e])
      | FileLines ls \<Rightarrow>
          (case read_rows to_int (dict_reader ls) [] of
             Inl e \<Rightarrow> ([], [PrintCsvError e])
           | Inr symbols \<Rightarrow> (symbols, [PrintCsvLoaded (length symbols)])))"

section \<open>Specification-level notions\<close>

text \<open>
  The rows of a strike-intervals file that can be read: symbol and step value of each
  row, in file order.
\<close>

fun parsed_rows :: "(string \<Rightarrow> real option) \<Rightarrow> row list \<Rightarrow> (string \<times> real) list option" where
  "parsed_rows to_float [] = Some []"
| "parsed_rows to_float (r # rows) =
     (case (map_of r ''Symbol'', map_of r ''Gap'') of
        (Some (Some cell), Some (Some gap)) \<Rightarrow>
          (case (to_float gap, parsed_rows to_float rows) of
             (Some v, Some ps) \<Rightarrow> Some ((strip cell, v) # ps)
           | _ \<Rightarrow> None)
      | _ \<Rightarrow> None)"

text \<open>The step values of one symbol among parsed rows.\<close>

definition steps_of :: "string \<Rightarrow> (string \<times> real) list \<Rightarrow> real list" where
  "steps_of symbol ps = map snd (filter (\<lambda>p. fst p = symbol) ps)"

text \<open>The least of a list of step values, if there is one.\<close>

definition min_step :: "real list \<Rightarrow> real option" where
  "min_step xs = (if xs = [] then None else Some (Min (set xs)))"

text \<open>The value already stored for a symbol, as a list of at most one step value.\<close>

definition known :: "real option \<Rightarrow> real list" where
  "known v = (case v of None \<Rightarrow> [] | Some x \<Rightarrow> [x])"

text \<open>A result is within the limit when one of its margins is positive and at most the limit.\<close>

definition within_limit :: "real \<Rightarrow> result \<Rightarrow> bool" where
  "within_limit margin_filter res =
     ((0 < r_ce_margin res \<and> r_ce_margin res \<le> margin_filter) \<or>
      (0 < r_pe_margin res \<and> r_pe_margin res \<le> margin_filter))"



text \<open>The events of a run that announce an instrument.\<close>

fun processing_of :: "event list \<Rightarrow> string list" where
  "processing_of [] = []"
| "processing_of (PrintProcessing s # es) = s # processing_of es"
| "processing_of (_ # es) = processing_of es"

section \<open>Example inputs\<close>

text \<open>
  A small environment for concrete runs: on Tuesday 2024-05-07 the login succeeds, the
  index NIFTY trades at 22010, its 22050 call at 120; the request for the put fails
  with an HTTP error, and so does every other request.
\<close>

definition example_env :: env where
  "example_env =
     \<lparr>clock = (\<lambda>_. \<lparr>year = 2024, month = 5, day = 7\<rparr>),
      token_response = (\<lambda>_. Some ''token''),
      quotes = (\<lambda>_ s.
        if s = ''NSE:NIFTY50-INDEX'' then
          Inr \<lparr>resp_s = Some ''ok'', resp_d = [QuoteEntry (Some (LpNum 22010))]\<rparr>
        else if s = ''NSE:NIFTY2450922050CE'' then
          Inr \<lparr>resp_s = Some ''ok'', resp_d = [QuoteEntry (Some (LpNum 120))]\<rparr>
        else Inl HTTPError),
      float_of_str = (\<lambda>_. None)\<rparr>"

definition start_world :: world where
  "start_world = \<lparr>access_token = None, authenticated = False, calls = 0, out = []\<rparr>"

text \<open>
  A reader for concrete files of two columns, without quoting: the first line names
  the columns, every further line is split at its commas.
\<close>

fun split_commas :: "string \<Rightarrow> string \<Rightarrow> string list" where
  "split_commas cur [] = [rev cur]"
| "split_commas cur (c # cs) =
     (if c = CHR '','' then rev cur # split_commas [] cs else split_commas (c # cur) cs)"

fun zip_cells :: "string list \<Rightarrow> string list \<Rightarrow> row" where
  "zip_cells [] _ = []"
| "zip_cells (h # hs) [] = (h, None) # zip_cells hs []"
| "zip_cells (h # hs) (c # cs) = (h, Some c) # zip_cells hs cs"

definition simple_reader :: "string list \<Rightarrow> row list" where
  "simple_reader ls =
     (case ls of
        [] \<Rightarrow> []
      | header # rest \<Rightarrow> map (\<lambda>l. zip_cells (split_commas [] header) (split_commas [] l)) rest)"

text \<open>A parser of unsigned decimal numerals, for concrete files.\<close>

definition digit_value :: "char \<Rightarrow> nat option" where
  "digit_value c = map_of (zip ''0123456789'' [0, 1, 2, 3, 4, 5, 6, 7, 8, 9]) c"

fun parse_nat :: "nat \<Rightarrow> string \<Rightarrow> nat option" where
  "parse_nat acc [] = Some acc"
| "parse_nat acc (c # cs) =
     (case digit_value c of None \<Rightarrow> None | Some v \<Rightarrow> parse_nat (10 * acc + v) cs)"

definition simple_number :: "string \<Rightarrow> nat option" where
  "simple_number s = (if s = [] then None else parse_nat 0 s)"

definition simple_float :: "string \<Rightarrow> real option" where
  "simple_float s = map_option real (simple_number s)"

definition simple_int :: "string \<Rightarrow> int option" where
  "simple_int s = map_option int (simple_number s)"

section \<open>Auxiliary facts\<close>

subsection \<open>The filter loops\<close>

lemma filter_loop_v2_eq:
  "filter_loop_v2 margin_filter results acc = acc @ filter (within_limit margin_filter) results"
  by (induction results arbitrary: acc) (simp_all add: within_limit_def Let_def)

lemma filter_loop_eq:
  "filter_loop margin_filter results acc = acc @ filter (within_limit margin_filter) results"
  by (induction results arbitrary: acc) (simp_all add: within_limit_def)

lemma filter_by_margin_v2_eq:
  "LTPMarginCalculator_filter_by_margin margin_filter results =
     filter (within_limit margin_filter) results"
  by (simp add: LTPMarginCalculator_filter_by_margin_def filter_loop_v2_eq)

lemma filter_by_margin_eq:
  "filter_by_margin margin_filter results = filter (within_limit margin_filter) results"
  by (simp add: filter_by_margin_def filter_loop_eq)

subsection \<open>The calendar\<close>

















subsection \<open>Strings of the expiry codes\<close>








subsection \<open>The event log\<close>

lemma processing_of_append: "processing_of (xs @ ys) = processing_of xs @ processing_of ys"
  by (induction xs rule: processing_of.induct) simp_all

lemma out_emit: "out (emit e w) = out w @ [e]"
  by (simp add: emit_def)

lemma out_tick: "out (tick w) = out w"
  by (simp add: tick_def)

lemma processing_generate:
  "FyersAPI_generate_access_token env w = (t, w') \<Longrightarrow>
     processing_of (out w') = processing_of (out w)"
  by (auto simp: FyersAPI_generate_access_token_def Let_def out_emit out_tick processing_of_append
      split: option.splits)

lemma processing_initialize:
  "FyersAPI_initialize_fyers_model env w = (ok, w') \<Longrightarrow>
     processing_of (out w') = processing_of (out w)"
  by (auto simp: FyersAPI_initialize_fyers_model_def Let_def
      split: prod.splits if_splits dest: processing_generate)

lemma processing_get_ltp:
  "FyersAPI_get_ltp env symbol w = (x, w') \<Longrightarrow>
     processing_of (out w') = processing_of (out w)"
  by (auto simp: FyersAPI_get_ltp_def Let_def out_emit out_tick processing_of_append
      split: prod.splits sum.splits if_splits dest: processing_initialize)

lemma processing_process_symbol:
  "LTPMarginCalculator_process_symbol env iv symbol lot_size w = (res, w') \<Longrightarrow>
   processing_of (out w') = processing_of (out w) @ [symbol]"
  by (auto simp: LTPMarginCalculator_process_symbol_def Let_def out_emit processing_of_append
      split: prod.splits sum.splits if_splits dest!: processing_get_ltp)

lemma processing_run_loop:
  "run_loop env iv symbols acc w = (results, w') \<Longrightarrow>
   processing_of (out w') = processing_of (out w) @ map fst symbols"
proof (induction symbols arbitrary: acc w)
  case Nil
  then show ?case by simp
next
  case (Cons a symbols)
  obtain symbol lot_size where a: "a = (symbol, lot_size)" by (cases a)
  obtain res w1 where p: "LTPMarginCalculator_process_symbol env iv symbol lot_size w = (res, w1)"
    by (cases "LTPMarginCalculator_process_symbol env iv symbol lot_size w")
  define w2 where "w2 = (if symbols \<noteq> [] then emit Sleep w1 else w1)"
  define acc' where "acc' = (case res of Some r \<Rightarrow> acc @ [r] | None \<Rightarrow> acc)"
  from Cons.prems have "run_loop env iv symbols acc' w2 = (results, w')"
    by (simp add: a p w2_def acc'_def Let_def)
  from Cons.IH [OF this]
  have "processing_of (out w') = processing_of (out w2) @ map fst symbols" .
  moreover have "processing_of (out w2) = processing_of (out w1)"
    by (simp add: w2_def out_emit processing_of_append)
  moreover have "processing_of (out w1) = processing_of (out w) @ [symbol]"
    using p by (rule processing_process_symbol)
  ultimately show ?case by (simp add: a)
qed

subsection \<open>Loading rows\<close>

lemma min_step_merge: "min_step (a # b # xs) = min_step (min a b # xs)"
proof (cases "xs = []")
  case True
  then show ?thesis by (simp add: min_step_def)
next
  case False
  then have "Min (insert a (insert b (set xs))) = min a (min b (Min (set xs)))"
    by simp
  moreover from False have "Min (insert (min a b) (set xs)) = min (min a b) (Min (set xs))"
    by simp
  ultimately show ?thesis by (simp add: min_step_def min.assoc)
qed

lemma load_rows_parsed:
  "parsed_rows to_float rows = Some ps \<Longrightarrow>
   \<exists>m'. load_rows to_float rows m = Inr m' \<and>
        (\<forall>s. m' s = min_step (known (m s) @ steps_of s ps))"
proof (induction rows arbitrary: m ps)
  case Nil
  then show ?case by (auto simp: steps_of_def known_def min_step_def split: option.splits)
next
  case (Cons r rows)
  from Cons.prems obtain cell gap v ps' where
    c: "map_of r ''Symbol'' = Some (Some cell)" and g: "map_of r ''Gap'' = Some (Some gap)"
    and f: "to_float gap = Some v" and p: "parsed_rows to_float rows = Some ps'"
    and ps: "ps = (strip cell, v) # ps'"
    by (auto split: option.splits)
  define m1 where "m1 = (if (case m (strip cell) of None \<Rightarrow> True | Some old \<Rightarrow> v < old)
                         then m(strip cell \<mapsto> v) else m)"
  from Cons.IH [OF p, of m1] obtain m' where
    l: "load_rows to_float rows m1 = Inr m'"
    and q: "\<And>s. m' s = min_step (known (m1 s) @ steps_of s ps')" by blast
  have "load_rows to_float (r # rows) m = Inr m'"
    using c g f l by (simp add: Let_def m1_def)
  moreover have "min_step (known (m1 s) @ steps_of s ps') = min_step (known (m s) @ steps_of s ps)" for s
  proof (cases "s = strip cell")
    case False
    then show ?thesis by (simp add: m1_def ps steps_of_def)
  next
    case True
    show ?thesis
    proof (cases "m (strip cell)")
      case None
      then show ?thesis by (simp add: True m1_def ps steps_of_def known_def)
    next
      case (Some old)
      show ?thesis
      proof (cases "v < old")
        case True
        then have "min old v = v" by simp
        with True show ?thesis
          using min_step_merge [of old v "steps_of s ps'"]
          by (simp add: \<open>s = strip cell\<close> Some m1_def ps steps_of_def known_def)
      next
        case False
        then have "min old v = old" by simp
        with False show ?thesis
          using min_step_merge [of old v "steps_of s ps'"]
          by (simp add: \<open>s = strip cell\<close> Some m1_def ps steps_of_def known_def)
      qed
    qed
  qed
  ultimately show ?case using q by auto
qed

lemma load_rows_unparsed:
  "parsed_rows to_float rows = None \<Longrightarrow> \<exists>e. load_rows to_float rows m = Inl e"
proof (induction rows arbitrary: m)
  case Nil
  then show ?case by simp
next
  case (Cons r rows)
  show ?case
  proof (cases "parsed_rows to_float rows")
    case None
    from Cons.IH [OF None] show ?thesis
      by (auto simp: Let_def split: option.splits)
  next
    case (Some ps')
    with Cons.prems show ?thesis
      by (auto simp: Let_def split: option.splits)
  qed
qed

subsection \<open>Concrete evaluations\<close>


lemma ev_next_7:
  "next_thursday \<lparr>year = 2024, month = 5, day = 7\<rparr> = \<lparr>year = 2024, month = 5, day = 9\<rparr>"
  by code_simp

lemma ev_last_7:
  "last_thursday \<lparr>year = 2024, month = 5, day = 7\<rparr> = \<lparr>year = 2024, month = 5, day = 30\<rparr>"
  by code_simp

lemma ev_next_31:
  "next_thursday \<lparr>year = 2024, month = 5, day = 31\<rparr> = \<lparr>year = 2024, month = 6, day = 6\<rparr>"
  by code_simp

lemma ev_last_31:
  "last_thursday \<lparr>year = 2024, month = 5, day = 31\<rparr> = \<lparr>year = 2024, month = 5, day = 30\<rparr>"
  by code_simp

lemma ev_weekday_9: "weekday \<lparr>year = 2024, month = 5, day = 9\<rparr> = 3"
  by code_simp

lemma ev_pad2: "pad2 24 = ''24''" "pad2 9 = ''09''" "pad2 6 = ''06''"
  by (simp_all add: pad2_def str_nat.simps digit_char_def)

lemma ev_str_int: "str_int 22050 = ''22050''"
  by (simp add: str_int_def str_nat.simps digit_char_def)

lemma ev_month_code: "fyers_month_code 5 = Some ''5''" "fyers_month_code 6 = Some ''6''"
  by (simp_all add: fyers_month_code_def)

lemma ev_upper:
  "upper ''NIFTY'' = ''NIFTY''"
  "upper ''BANKNIFTY'' = ''BANKNIFTY''"
  "upper ''RELIANCE'' = ''RELIANCE''"
  "upper ''nifty'' = ''NIFTY''"
  "upper ''Nifty'' = ''NIFTY''"
  "upper ''reliance'' = ''RELIANCE''"
  "upper ''nifty next 50'' = ''NIFTY NEXT 50''"
  by (simp_all add: upper_def upper_char_def)

lemma ev_monthly:
  "monthly_code \<lparr>year = 2024, month = 5, day = 7\<rparr> = ''24MAY''"
  "monthly_code \<lparr>year = 2024, month = 5, day = 31\<rparr> = ''24MAY''"
  by (simp_all add: monthly_code_def strftime_y_def strftime_b_def ev_pad2 upper_def upper_char_def)

lemma ev_expiry_v2:
  "Utils_get_expiry_code \<lparr>year = 2024, month = 5, day = 7\<rparr> ''NIFTY'' = Inr ''24509''"
  "Utils_get_expiry_code \<lparr>year = 2024, month = 5, day = 7\<rparr> ''nifty'' = Inr ''24509''"
  "Utils_get_expiry_code \<lparr>year = 2024, month = 5, day = 7\<rparr> ''BANKNIFTY'' = Inr ''24MAY''"
  "Utils_get_expiry_code \<lparr>year = 2024, month = 5, day = 7\<rparr> ''RELIANCE'' = Inr ''24MAY''"
  "Utils_get_expiry_code \<lparr>year = 2024, month = 5, day = 7\<rparr> ''nifty next 50'' = Inr ''24MAY''"
  "Utils_get_expiry_code \<lparr>year = 2024, month = 5, day = 31\<rparr> ''NIFTY'' = Inr ''24606''"
  by (simp_all add: Utils_get_expiry_code_def Let_def ev_next_7 ev_last_7 ev_next_31 ev_last_31
      ev_pad2 ev_month_code ev_upper ev_monthly strftime_y_def)


lemma ev_option_symbols:
  "Utils_create_option_symbol \<lparr>year = 2024, month = 5, day = 7\<rparr> ''NIFTY'' 22050 ''CE'' =
     Inr ''NSE:NIFTY2450922050CE''"
  "Utils_create_option_symbol \<lparr>year = 2024, month = 5, day = 7\<rparr> ''NIFTY'' 22050 ''PE'' =
     Inr ''NSE:NIFTY2450922050PE''"
  by (simp_all add: Utils_create_option_symbol_def ev_expiry_v2 ev_upper option_mapping_def
      ev_str_int)

lemma ev_convert:
  "Utils_convert_symbol_to_fyers_format ''NIFTY'' = ''NSE:NIFTY50-INDEX''"
  "Utils_convert_symbol_to_fyers_format ''RELIANCE'' = ''NSE:RELIANCE-EQ''"
  by (simp_all add: Utils_convert_symbol_to_fyers_format_def ev_upper index_mapping_def)

lemma ev_atm: "Utils_calculate_atm_strike 22010 ''NIFTY'' get_default_intervals = 22050"
  by (simp add: Utils_calculate_atm_strike_def get_default_intervals_def ev_upper int_of_float_def)

lemmas client_defs = FyersAPI_get_ltp_def FyersAPI_initialize_fyers_model_def
  FyersAPI_generate_access_token_def example_env_def start_world_def emit_def tick_def
  truthy_def read_lp_def Let_def

lemma ev_process_nifty:
  "LTPMarginCalculator_process_symbol example_env get_default_intervals ''NIFTY'' 25 start_world =
     (Some \<lparr>r_symbol = ''NIFTY'', r_ltp = 22010, r_atm_strike = 22050,
           r_ce_symbol = ''NSE:NIFTY2450922050CE'', r_ce_ltp = 120, r_ce_margin = 3000,
           r_pe_symbol = ''NSE:NIFTY2450922050PE'', r_pe_ltp = 0, r_pe_margin = 0,
           r_lot_size = 25\<rparr>,
      \<lparr>access_token = Some ''token'', authenticated = True, calls = 4,
       out = [PrintProcessing ''NIFTY'', PrintAuthenticating, PrintAuthOk,
              PrintLtp 22010, PrintLtpError ''NSE:NIFTY2450922050PE'' HTTPError,
              PrintAtm 22050 120 0]\<rparr>)"
  by (simp add: LTPMarginCalculator_process_symbol_def client_defs ev_convert ev_atm
      ev_option_symbols FyersAPI_calculate_margin_def)

section \<open>The claims\<close>

subsection \<open>C4: the reported subset\<close>

text \<open>
  C4, as stated: the reported subset is exactly the results with a CE or PE margin
  strictly below the threshold. The code differs twice. A result whose margins are both
  0 (no quote for either leg) is below the threshold 20000 and is not reported; a
  result whose margin equals the threshold is reported.
\<close>

theorem C4_counterexample:
  "r_ce_margin \<lparr>r_symbol = ''ABC'', r_ltp = 100, r_atm_strike = 100,
                 r_ce_symbol = ''NSE:ABC24MAY100CE'', r_ce_ltp = 0, r_ce_margin = 0,
                 r_pe_symbol = ''NSE:ABC24MAY100PE'', r_pe_ltp = 0, r_pe_margin = 0,
                 r_lot_size = 10\<rparr> < 20000
   \<and> LTPMarginCalculator_filter_by_margin 20000
         [\<lparr>r_symbol = ''ABC'', r_ltp = 100, r_atm_strike = 100,
           r_ce_symbol = ''NSE:ABC24MAY100CE'', r_ce_ltp = 0, r_ce_margin = 0,
           r_pe_symbol = ''NSE:ABC24MAY100PE'', r_pe_ltp = 0, r_pe_margin = 0,
           r_lot_size = 10\<rparr>] = []
   \<and> filter_by_margin 20000
         [\<lparr>r_symbol = ''ABC'', r_ltp = 100, r_atm_strike = 100,
           r_ce_symbol = ''NSE:ABC24MAY100CE'', r_ce_ltp = 0, r_ce_margin = 0,
           r_pe_symbol = ''NSE:ABC24MAY100PE'', r_pe_ltp = 0, r_pe_margin = 0,
           r_lot_size = 10\<rparr>] = []
   \<and> LTPMarginCalculator_filter_by_margin 20000
         [\<lparr>r_symbol = ''ABC'', r_ltp = 100, r_atm_strike = 100,
           r_ce_symbol = ''NSE:ABC24MAY100CE'', r_ce_ltp = 2000, r_ce_margin = 20000,
           r_pe_symbol = ''NSE:ABC24MAY100PE'', r_pe_ltp = 2000, r_pe_margin = 20000,
           r_lot_size = 10\<rparr>] =
         [\<lparr>r_symbol = ''ABC'', r_ltp = 100, r_atm_strike = 100,
           r_ce_symbol = ''NSE:ABC24MAY100CE'', r_ce_ltp = 2000, r_ce_margin = 20000,
           r_pe_symbol = ''NSE:ABC24MAY100PE'', r_pe_ltp = 2000, r_pe_margin = 20000,
           r_lot_size = 10\<rparr>]"
  by (simp add: LTPMarginCalculator_filter_by_margin_def filter_by_margin_def)

text \<open>
  C4, amended: for every list of results and every threshold, both versions of
  \<^verbatim>\<open>filter_by_margin\<close> report exactly the results that have at least one option leg
  (CE or PE) whose margin is positive and at most the threshold, in the order of the
  input; no other result is reported.
\<close>

theorem C4_filter_by_margin_reports:
  "LTPMarginCalculator_filter_by_margin margin_filter results =
     filter (\<lambda>res. (0 < r_ce_margin res \<and> r_ce_margin res \<le> margin_filter) \<or>
                   (0 < r_pe_margin res \<and> r_pe_margin res \<le> margin_filter)) results
   \<and> filter_by_margin margin_filter results =
     filter (\<lambda>res. (0 < r_ce_margin res \<and> r_ce_margin res \<le> margin_filter) \<or>
                   (0 < r_pe_margin res \<and> r_pe_margin res \<le> margin_filter)) results
   \<and> set (LTPMarginCalculator_filter_by_margin margin_filter results) =
     {res. res \<in> set results \<and>
           ((0 < r_ce_margin res \<and> r_ce_margin res \<le> margin_filter) \<or>
            (0 < r_pe_margin res \<and> r_pe_margin res \<le> margin_filter))}"
proof -
  have w: "within_limit margin_filter =
             (\<lambda>res. (0 < r_ce_margin res \<and> r_ce_margin res \<le> margin_filter) \<or>
                    (0 < r_pe_margin res \<and> r_pe_margin res \<le> margin_filter))"
    by (rule ext) (simp add: within_limit_def)
  have v2: "LTPMarginCalculator_filter_by_margin margin_filter results =
              filter (within_limit margin_filter) results"
    by (rule filter_by_margin_v2_eq)
  have v1: "filter_by_margin margin_filter results = filter (within_limit margin_filter) results"
    by (rule filter_by_margin_eq)
  have s: "set (filter (within_limit margin_filter) results) =
             {res. res \<in> set results \<and> within_limit margin_filter res}"
    by auto
  show ?thesis
    using v2 v1 s unfolding w by simp
qed

theorem C4_filter_by_margin_reports_witness:
  "LTPMarginCalculator_filter_by_margin 20000
     [\<lparr>r_symbol = ''ABC'', r_ltp = 100, r_atm_strike = 100,
       r_ce_symbol = ''NSE:ABC24MAY100CE'', r_ce_ltp = 5, r_ce_margin = 50,
       r_pe_symbol = ''NSE:ABC24MAY100PE'', r_pe_ltp = 0, r_pe_margin = 0,
       r_lot_size = 10\<rparr>] =
     [\<lparr>r_symbol = ''ABC'', r_ltp = 100, r_atm_strike = 100,
       r_ce_symbol = ''NSE:ABC24MAY100CE'', r_ce_ltp = 5, r_ce_margin = 50,
       r_pe_symbol = ''NSE:ABC24MAY100PE'', r_pe_ltp = 0, r_pe_margin = 0,
       r_lot_size = 10\<rparr>]"
  using C4_filter_by_margin_reports [of 20000
     "[\<lparr>r_symbol = ''ABC'', r_ltp = 100, r_atm_strike = 100,
       r_ce_symbol = ''NSE:ABC24MAY100CE'', r_ce_ltp = 5, r_ce_margin = 50,
       r_pe_symbol = ''NSE:ABC24MAY100PE'', r_pe_ltp = 0, r_pe_margin = 0,
       r_lot_size = 10\<rparr>]"]
  by simp

subsection \<open>C9: the optimized ATM strike rounds up\<close>



subsection \<open>C10: filtering is idempotent and keeps the order\<close>

text \<open>
  C10: \<^verbatim>\<open>filter_by_margin\<close> (both versions) is idempotent and order-preserving:
  applying it twice gives the same list as applying it once, and its output is a
  subsequence of its input.
\<close>

theorem C10_filter_by_margin_idempotent_subseq:
  "LTPMarginCalculator_filter_by_margin margin_filter
       (LTPMarginCalculator_filter_by_margin margin_filter results) =
     LTPMarginCalculator_filter_by_margin margin_filter results
   \<and> subseq (LTPMarginCalculator_filter_by_margin margin_filter results) results
   \<and> filter_by_margin margin_filter (filter_by_margin margin_filter results) =
     filter_by_margin margin_filter results
   \<and> subseq (filter_by_margin margin_filter results) results"
  by (simp add: filter_by_margin_v2_eq filter_by_margin_eq)

theorem C10_filter_by_margin_idempotent_subseq_witness:
  "LTPMarginCalculator_filter_by_margin 20000 (LTPMarginCalculator_filter_by_margin 20000 []) =
     LTPMarginCalculator_filter_by_margin 20000 []
   \<and> subseq (filter_by_margin 20000 []) []"
  using C10_filter_by_margin_idempotent_subseq [of 20000 "[]"] by simp

subsection \<open>C5: the expiry code\<close>




subsection \<open>C8: the original and the optimized expiry code\<close>




subsection \<open>C1: the nearest strike\<close>

text \<open>
  C1 says that the ATM strike calculator returns the multiple of the strike interval
  nearest to the LTP. The optimized calculator rounds up instead: for the LTP 101 and
  NIFTY (interval 50) it returns 150, although the multiple 100 is nearer; the original
  calculator returns 100 there. With the interval 2.5 and the LTP 212 both calculators
  return 212, which is no multiple of 2.5: the final \<^verbatim>\<open>int\<close> cuts 212.5 down.
\<close>

theorem C1_atm_strike_not_nearest:
  "Utils_calculate_atm_strike 101 ''NIFTY'' get_default_intervals = 150
   \<and> (50::int) dvd 100
   \<and> \<bar>101 - real_of_int 100\<bar> < \<bar>101 - real_of_int 150\<bar>
   \<and> calculate_atm_strike get_default_intervals 101 ''NIFTY'' = Inr 100
   \<and> Utils_calculate_atm_strike 212 ''ACC'' (Map.empty(''ACC'' \<mapsto> 5 / 2)) = 212
   \<and> calculate_atm_strike (Map.empty(''ACC'' \<mapsto> 5 / 2)) 212 ''ACC'' = Inr 212"
  by (simp add: Utils_calculate_atm_strike_def calculate_atm_strike_def get_default_intervals_def
      upper_def upper_char_def int_of_float_def fmod_def)

subsection \<open>C2: the margin of the optimized path\<close>

text \<open>
  C2: in the optimized path the computed margin is the contract's price multiplied by
  the lot size, and \<^verbatim>\<open>process_symbol\<close> gives the margin 0 to a leg whose contract LTP
  is not positive (and price times lot size to a leg whose LTP is positive).
\<close>

theorem C2_margin_is_price_times_lot:
  "FyersAPI_calculate_margin ltp lot_size = ltp * of_int lot_size
   \<and> (LTPMarginCalculator_process_symbol env strike_intervals symbol lot_size w = (Some res, w') \<longrightarrow>
        (r_ce_ltp res \<le> 0 \<longrightarrow> r_ce_margin res = 0)
      \<and> (r_pe_ltp res \<le> 0 \<longrightarrow> r_pe_margin res = 0)
      \<and> (0 < r_ce_ltp res \<longrightarrow> r_ce_margin res = r_ce_ltp res * of_int lot_size)
      \<and> (0 < r_pe_ltp res \<longrightarrow> r_pe_margin res = r_pe_ltp res * of_int lot_size))"
  unfolding LTPMarginCalculator_process_symbol_def Let_def
  by (auto simp: FyersAPI_calculate_margin_def split: prod.splits sum.splits if_splits)

theorem C2_margin_is_price_times_lot_witness:
  "fst (LTPMarginCalculator_process_symbol example_env get_default_intervals ''NIFTY'' 25 start_world) =
     Some \<lparr>r_symbol = ''NIFTY'', r_ltp = 22010, r_atm_strike = 22050,
           r_ce_symbol = ''NSE:NIFTY2450922050CE'', r_ce_ltp = 120, r_ce_margin = 3000,
           r_pe_symbol = ''NSE:NIFTY2450922050PE'', r_pe_ltp = 0, r_pe_margin = 0,
           r_lot_size = 25\<rparr>
   \<and> FyersAPI_calculate_margin 120 25 = 120 * 25"
  using C2_margin_is_price_times_lot
          [of 120 25 example_env get_default_intervals "''NIFTY''" start_world
              "\<lparr>r_symbol = ''NIFTY'', r_ltp = 22010, r_atm_strike = 22050,
                r_ce_symbol = ''NSE:NIFTY2450922050CE'', r_ce_ltp = 120, r_ce_margin = 3000,
                r_pe_symbol = ''NSE:NIFTY2450922050PE'', r_pe_ltp = 0, r_pe_margin = 0,
                r_lot_size = 25\<rparr>"
              "\<lparr>access_token = Some ''token'', authenticated = True, calls = 4,
                out = [PrintProcessing ''NIFTY'', PrintAuthenticating, PrintAuthOk,
                       PrintLtp 22010, PrintLtpError ''NSE:NIFTY2450922050PE'' HTTPError,
                       PrintAtm 22050 120 0]\<rparr>"]
        ev_process_nifty
  by simp

subsection \<open>C7: the symbol formats\<close>

text \<open>
  C7: the option-contract identifier is the concatenation of the prefix \<^verbatim>\<open>NSE:\<close>, the
  mapped underlying name (the upper-cased symbol, with NIFTYNXT50 for NIFTY NEXT 50),
  the expiry code, the strike in decimal and the option type; the quote-lookup
  formatter maps each of the six index names to its fixed identifier and every other
  name to \<^verbatim>\<open>NSE:<SYMBOL>-EQ\<close>. Names are compared after upper-casing, and
  \<^verbatim>\<open><SYMBOL>\<close> is the upper-cased name.
\<close>

theorem C7_symbol_formats:
  "(Utils_get_expiry_code now base_symbol = Inr expiry_code \<longrightarrow>
      Utils_create_option_symbol now base_symbol strike option_type =
        Inr (''NSE:'' @ (if upper base_symbol = ''NIFTY NEXT 50'' then ''NIFTYNXT50''
                         else upper base_symbol)
                      @ expiry_code @ str_int strike @ option_type))
   \<and> (upper symbol = ''NIFTY'' \<longrightarrow>
        Utils_convert_symbol_to_fyers_format symbol = ''NSE:NIFTY50-INDEX'')
   \<and> (upper symbol = ''BANKNIFTY'' \<longrightarrow>
        Utils_convert_symbol_to_fyers_format symbol = ''NSE:NIFTYBANK-INDEX'')
   \<and> (upper symbol = ''FINNIFTY'' \<longrightarrow>
        Utils_convert_symbol_to_fyers_format symbol = ''NSE:FINNIFTY-INDEX'')
   \<and> (upper symbol = ''MIDCPNIFTY'' \<longrightarrow>
        Utils_convert_symbol_to_fyers_format symbol = ''NSE:MIDCPNIFTY-INDEX'')
   \<and> (upper symbol = ''NIFTY NEXT 50'' \<longrightarrow>
        Utils_convert_symbol_to_fyers_format symbol = ''NSE:NIFTYNXT50-INDEX'')
   \<and> (upper symbol = ''SENSEX'' \<longrightarrow>
        Utils_convert_symbol_to_fyers_format symbol = ''BSE:SENSEX-INDEX'')
   \<and> (upper symbol \<notin> set [''NIFTY'', ''BANKNIFTY'', ''FINNIFTY'', ''MIDCPNIFTY'',
                            ''NIFTY NEXT 50'', ''SENSEX''] \<longrightarrow>
        Utils_convert_symbol_to_fyers_format symbol = ''NSE:'' @ upper symbol @ ''-EQ'')"
proof -
  have opt: "(case map_of option_mapping (upper base_symbol) of Some v \<Rightarrow> v
              | None \<Rightarrow> upper base_symbol) =
             (if upper base_symbol = ''NIFTY NEXT 50'' then ''NIFTYNXT50''
              else upper base_symbol)"
    by (simp add: option_mapping_def)
  have a: "Utils_get_expiry_code now base_symbol = Inr expiry_code \<Longrightarrow>
      Utils_create_option_symbol now base_symbol strike option_type =
        Inr (''NSE:'' @ (if upper base_symbol = ''NIFTY NEXT 50'' then ''NIFTYNXT50''
                         else upper base_symbol)
                      @ expiry_code @ str_int strike @ option_type)"
    unfolding Utils_create_option_symbol_def Let_def opt by simp
  have b: "Utils_convert_symbol_to_fyers_format symbol =
      (if upper symbol = ''NIFTY'' then ''NSE:NIFTY50-INDEX''
       else if upper symbol = ''BANKNIFTY'' then ''NSE:NIFTYBANK-INDEX''
       else if upper symbol = ''FINNIFTY'' then ''NSE:FINNIFTY-INDEX''
       else if upper symbol = ''MIDCPNIFTY'' then ''NSE:MIDCPNIFTY-INDEX''
       else if upper symbol = ''NIFTY NEXT 50'' then ''NSE:NIFTYNXT50-INDEX''
       else if upper symbol = ''SENSEX'' then ''BSE:SENSEX-INDEX''
       else ''NSE:'' @ upper symbol @ ''-EQ'')"
    by (simp add: Utils_convert_symbol_to_fyers_format_def index_mapping_def)
  show ?thesis using a by (simp add: b)
qed

theorem C7_symbol_formats_witness:
  "Utils_get_expiry_code \<lparr>year = 2024, month = 5, day = 7\<rparr> ''nifty next 50'' = Inr ''24MAY''
   \<and> Utils_create_option_symbol \<lparr>year = 2024, month = 5, day = 7\<rparr> ''nifty next 50'' 22050 ''CE'' =
       Inr ''NSE:NIFTYNXT5024MAY22050CE''
   \<and> upper ''reliance'' \<notin> set [''NIFTY'', ''BANKNIFTY'', ''FINNIFTY'', ''MIDCPNIFTY'',
                                ''NIFTY NEXT 50'', ''SENSEX'']
   \<and> Utils_convert_symbol_to_fyers_format ''reliance'' = ''NSE:RELIANCE-EQ''"
  using C7_symbol_formats
          [of "\<lparr>year = 2024, month = 5, day = 7\<rparr>" "''nifty next 50''" "''24MAY''" 22050 "''CE''"
              "''reliance''"]
        ev_expiry_v2(5)
  by (simp add: ev_upper ev_str_int)

end
